theory Spec2Isabelle
  imports Complex_Main "HOL-Library.Multiset"
begin

section \<open>Values shared by the three notebooks\<close>

text \<open>
  The repository is three notebooks (DenseNet201, EfficientNet-B0, ResNet-18) with the same
  cells. A Python float is either not-a-number or a number; the order on numbers is the one
  of the reals. The exceptions are those that derive from \<^verbatim>\<open>Exception\<close>, the
  class the sweep catches; an interrupt of the interpreter is not among them.
\<close>

datatype pyfloat = NaN | Val real

datatype exn =
    ValueError string
  | IndexError string
  | KeyError string
  | RuntimeError string
  | FileNotFoundError string

datatype backbone = DenseNet201 | EfficientNetB0 | ResNet18

section \<open>The hyperparameter grid\<close>

text \<open>
  \<^verbatim>\<open>
  num_epochs = [5, 10]
  lrs = [.001, .0001, .01]
  batch_size = [16, 32, 64]
  hyperparameter_combos = list(itertools.product(batch_size, num_epochs, lrs))
  \<close>
  The list \<^verbatim>\<open>batch_size\<close> is called \<open>batch_size_choices\<close> here, because
  \<open>batch_size\<close> is also a key of every result row.
\<close>

definition num_epochs :: "int list" where
  "num_epochs = [5, 10]"

definition lrs :: "real list" where
  "lrs = [0.001, 0.0001, 0.01]"

definition batch_size_choices :: "int list" where
  "batch_size_choices = [16, 32, 64]"

text \<open>\<^verbatim>\<open>itertools.product\<close> of three lists: the last list runs fastest.\<close>

definition itertools_product :: "'a list \<Rightarrow> 'b list \<Rightarrow> 'c list \<Rightarrow> ('a \<times> 'b \<times> 'c) list" where
  "itertools_product xs ys zs =
     concat (map (\<lambda>x. concat (map (\<lambda>y. map (\<lambda>z. (x, y, z)) zs) ys)) xs)"

definition hyperparameter_combos :: "(int \<times> int \<times> real) list" where
  "hyperparameter_combos = itertools_product batch_size_choices num_epochs lrs"

text \<open>
  Each notebook has two training pipelines: \<^verbatim>\<open>*_triv_aug_trans\<close> and
  \<^verbatim>\<open>*_train_datatransform\<close>. The outer loop of the grid pairs each with the name
  it records:
  \<^verbatim>\<open>for transform_name, train_data in [("triv_aug", train_data_triv_aug), ("d201_transform", train_data_d201_transform)]\<close>
  (\<^verbatim>\<open>eb0_transform\<close>, \<^verbatim>\<open>res18_transform\<close> in the other two notebooks).
\<close>

datatype augmentation = TrivAug | TrainTransform

fun transform_variants :: "backbone \<Rightarrow> (string \<times> augmentation) list" where
  "transform_variants DenseNet201 = [(''triv_aug'', TrivAug), (''d201_transform'', TrainTransform)]"
| "transform_variants EfficientNetB0 = [(''triv_aug'', TrivAug), (''eb0_transform'', TrainTransform)]"
| "transform_variants ResNet18 = [(''triv_aug'', TrivAug), (''res18_transform'', TrainTransform)]"

definition transform_names :: "backbone \<Rightarrow> string list" where
  "transform_names bb = map fst (transform_variants bb)"

text \<open>
  A grid point is (transform name, batch size, epochs, learning rate). The two nested
  \<^verbatim>\<open>for\<close> loops visit the points in the order of \<open>enumerate_grid\<close>: the
  transform in the outer loop, the combinations in the inner one.
\<close>

type_synonym hparams = "string \<times> int \<times> int \<times> real"

definition enumerate_grid :: "string list \<Rightarrow> int list \<Rightarrow> int list \<Rightarrow> real list \<Rightarrow> hparams list" where
  "enumerate_grid ts bs es ls =
     concat (map (\<lambda>t. map (\<lambda>(b, e, l). (t, b, e, l)) (itertools_product bs es ls)) ts)"

definition notebook_grid :: "backbone \<Rightarrow> hparams list" where
  "notebook_grid bb = enumerate_grid (transform_names bb) batch_size_choices num_epochs lrs"

section \<open>The sweep\<close>

text \<open>
  One row of \<^verbatim>\<open>results\<close>: the dictionary appended after each trial, with its
  seven keys.
\<close>

record run_result =
  transform :: string
  batch_size :: int
  epochs :: int
  lr :: real
  final_test_loss :: pyfloat
  final_test_ham_acc :: pyfloat
  final_test_zero_one_acc :: pyfloat

text \<open>
  The external routine \<^verbatim>\<open>train\<close> is not in the repository. It is a parameter:
  from the hidden state \<open>'s\<close> (the weights of the one model object the notebook
  builds before the grid, and the random generators) and a grid point it gives the new
  state and either an exception or the per-epoch histories read by the loop. The last
  zero-one accuracy is a tensor in the notebook; the row keeps its value. Building the
  data loader and the log writer before the \<^verbatim>\<open>try\<close> block, and the calls that
  log to the writer, do not touch \<^verbatim>\<open>results\<close> and are left out.
\<close>

record train_results =
  test_loss :: "pyfloat list"
  test_ham_acc :: "pyfloat list"
  test_zero_one_acc :: "pyfloat list"

type_synonym 's train_fn = "'s \<Rightarrow> hparams \<Rightarrow> 's \<times> (exn + train_results)"

text \<open>\<^verbatim>\<open>xs[-1]\<close>: raises IndexError on an empty list.\<close>

definition last_item :: "'a list \<Rightarrow> exn + 'a" where
  "last_item xs = (if xs = [] then Inl (IndexError ''list index out of range'') else Inr (last xs))"

text \<open>The row appended by the \<^verbatim>\<open>except Exception\<close> branch.\<close>

definition nan_row :: "hparams \<Rightarrow> run_result" where
  "nan_row p = (case p of (t, b, e, l) \<Rightarrow>
     \<lparr>transform = t, batch_size = b, epochs = e, lr = l,
      final_test_loss = NaN, final_test_ham_acc = NaN, final_test_zero_one_acc = NaN\<rparr>)"

text \<open>The body of the \<^verbatim>\<open>try\<close> block: the call and the three reads of a last element.\<close>

definition try_body :: "'s train_fn \<Rightarrow> 's \<Rightarrow> hparams \<Rightarrow> 's \<times> (exn + run_result)" where
  "try_body train s p = (case p of (t, b, e, l) \<Rightarrow>
     (case train s p of
        (s', Inl ex) \<Rightarrow> (s', Inl ex)
      | (s', Inr tr) \<Rightarrow>
          (case last_item (test_loss tr) of
             Inl ex \<Rightarrow> (s', Inl ex)
           | Inr loss \<Rightarrow>
               (case last_item (test_ham_acc tr) of
                  Inl ex \<Rightarrow> (s', Inl ex)
                | Inr ham \<Rightarrow>
                    (case last_item (test_zero_one_acc tr) of
                       Inl ex \<Rightarrow> (s', Inl ex)
                     | Inr zo \<Rightarrow>
                         (s', Inr \<lparr>transform = t, batch_size = b, epochs = e, lr = l,
                                   final_test_loss = loss, final_test_ham_acc = ham,
                                   final_test_zero_one_acc = zo\<rparr>))))))"

text \<open>One trial: \<^verbatim>\<open>try: ... except Exception as e: results.append({... nan ...})\<close>.\<close>

definition run_trial :: "'s train_fn \<Rightarrow> 's \<Rightarrow> hparams \<Rightarrow> 's \<times> run_result" where
  "run_trial train s p =
     (case try_body train s p of
        (s', Inl ex) \<Rightarrow> (s', nan_row p)
      | (s', Inr r) \<Rightarrow> (s', r))"

text \<open>The inner loop \<^verbatim>\<open>for batch_size, epoch, lr in hyperparameter_combos\<close>.\<close>

fun sweep_combos ::
  "'s train_fn \<Rightarrow> string \<Rightarrow> 's \<Rightarrow> (int \<times> int \<times> real) list \<Rightarrow> run_result list \<Rightarrow> 's \<times> run_result list" where
  "sweep_combos train t s [] results = (s, results)"
| "sweep_combos train t s ((b, e, l) # cs) results =
     (case run_trial train s (t, b, e, l) of
        (s', r) \<Rightarrow> sweep_combos train t s' cs (results @ [r]))"

text \<open>The outer loop \<^verbatim>\<open>for transform_name, train_data in [...]\<close>.\<close>

fun sweep_transforms ::
  "'s train_fn \<Rightarrow> 's \<Rightarrow> string list \<Rightarrow> (int \<times> int \<times> real) list \<Rightarrow> run_result list \<Rightarrow> 's \<times> run_result list" where
  "sweep_transforms train s [] combos results = (s, results)"
| "sweep_transforms train s (t # ts) combos results =
     (case sweep_combos train t s combos results of
        (s', results') \<Rightarrow> sweep_transforms train s' ts combos results')"

text \<open>The hyperparameter-testing cell of a notebook; \<^verbatim>\<open>results = []\<close> before it.\<close>

definition hyperparameter_testing :: "'s train_fn \<Rightarrow> 's \<Rightarrow> backbone \<Rightarrow> 's \<times> run_result list" where
  "hyperparameter_testing train s bb =
     sweep_transforms train s (transform_names bb) hyperparameter_combos []"

text \<open>The same loop over the points in any given order.\<close>

fun sweep_points :: "'s train_fn \<Rightarrow> 's \<Rightarrow> hparams list \<Rightarrow> run_result list \<Rightarrow> 's \<times> run_result list" where
  "sweep_points train s [] results = (s, results)"
| "sweep_points train s (p # ps) results =
     (case run_trial train s p of
        (s', r) \<Rightarrow> sweep_points train s' ps (results @ [r]))"

definition point_of :: "run_result \<Rightarrow> hparams" where
  "point_of r = (transform r, batch_size r, epochs r, lr r)"

definition metrics_of :: "run_result \<Rightarrow> pyfloat \<times> pyfloat \<times> pyfloat" where
  "metrics_of r = (final_test_loss r, final_test_ham_acc r, final_test_zero_one_acc r)"

text \<open>The metrics recorded for a grid point: those of its first row, if it has one.\<close>

definition result_for :: "hparams \<Rightarrow> run_result list \<Rightarrow> (pyfloat \<times> pyfloat \<times> pyfloat) option" where
  "result_for p results = map_of (map (\<lambda>r. (point_of r, metrics_of r)) results) p"

section \<open>Selecting the best row\<close>

text \<open>
  \<^verbatim>\<open>best_row = results_df.loc[results_df['final_test_ham_acc'].idxmax()]\<close>

  \<^verbatim>\<open>Series.idxmax\<close> of the pandas library skips not-a-number entries and gives the
  label of the first occurrence of the maximum; the frame has the default labels
  \<open>0, 1, ...\<close>, so the label is the position. With no number in the column the cell
  fails (a ValueError of \<^verbatim>\<open>idxmax\<close> or, in older versions of the library, a KeyError
  of \<^verbatim>\<open>.loc\<close>): that is the one error branch. \<open>idxmax_from i best xs\<close> scans
  \<open>xs\<close>, whose first element has position \<open>i\<close>, with the best position and value
  seen so far.
\<close>

fun idxmax_from :: "nat \<Rightarrow> (nat \<times> real) option \<Rightarrow> pyfloat list \<Rightarrow> (nat \<times> real) option" where
  "idxmax_from i best [] = best"
| "idxmax_from i best (NaN # xs) = idxmax_from (Suc i) best xs"
| "idxmax_from i best (Val v # xs) =
     idxmax_from (Suc i)
       (case best of
          None \<Rightarrow> Some (i, v)
        | Some (j, w) \<Rightarrow> if w < v then Some (i, v) else Some (j, w))
       xs"

definition idxmax :: "pyfloat list \<Rightarrow> exn + nat" where
  "idxmax xs =
     (case idxmax_from 0 None xs of
        None \<Rightarrow> Inl (ValueError ''attempt to get argmax of an empty sequence'')
      | Some (i, v) \<Rightarrow> Inr i)"

definition loc :: "'a list \<Rightarrow> nat \<Rightarrow> exn + 'a" where
  "loc df i = (if i < length df then Inr (df ! i) else Inl (KeyError ''label not in index''))"

definition select_best :: "run_result list \<Rightarrow> exn + run_result" where
  "select_best results_df =
     (case idxmax (map final_test_ham_acc results_df) of
        Inl ex \<Rightarrow> Inl ex
      | Inr i \<Rightarrow> loc results_df i)"

section \<open>Rebuilding the training data for the retrain\<close>

text \<open>
  The cell after \<^verbatim>\<open>json.load\<close> in the DenseNet201 and ResNet-18 notebooks:
  \<^verbatim>\<open>
  best_transform = best_params['transform']
  if best_transform == 'triv_aug':
      train_data = CustomImageDataset(X_train, y_train, data_transform=..._triv_aug_trans)
  elif best_transform == 'res18_transform':
      train_data = CustomImageDataset(X_train, y_train, data_transform=..._train_datatransform)
  else:
      raise ValueError(f"Unknown transform: {best_transform}")
  \<close>
  Both notebooks compare with \<^verbatim>\<open>'res18_transform'\<close>. The EfficientNet-B0 notebook has
  no such cell: its retrain uses \<^verbatim>\<open>train_dataloader\<close> as the last iteration of the
  grid loop left it, over \<^verbatim>\<open>train_data_eb0_transform\<close>, whatever
  \<^verbatim>\<open>best_params['transform']\<close> is.
\<close>

fun retrain_train_data :: "backbone \<Rightarrow> string \<Rightarrow> exn + augmentation" where
  "retrain_train_data DenseNet201 best_transform =
     (if best_transform = ''triv_aug'' then Inr TrivAug
      else if best_transform = ''res18_transform'' then Inr TrainTransform
      else Inl (ValueError (''Unknown transform: '' @ best_transform)))"
| "retrain_train_data ResNet18 best_transform =
     (if best_transform = ''triv_aug'' then Inr TrivAug
      else if best_transform = ''res18_transform'' then Inr TrainTransform
      else Inl (ValueError (''Unknown transform: '' @ best_transform)))"
| "retrain_train_data EfficientNetB0 best_transform = Inr TrainTransform"

section \<open>Persisted artifacts\<close>

text \<open>
  The tag each notebook passes to its plotting helpers
  (\<^verbatim>\<open>plot_confusion_matrix(y_true, y_pred, df, 'd201', save_dir)\<close>), and the three file
  names each notebook writes, as the string literals of its cells.
\<close>

fun backbone_tag :: "backbone \<Rightarrow> string" where
  "backbone_tag DenseNet201 = ''d201''"
| "backbone_tag EfficientNetB0 = ''eb0''"
| "backbone_tag ResNet18 = ''res18''"

fun hyperparameter_testing_csv :: "backbone \<Rightarrow> string" where
  "hyperparameter_testing_csv DenseNet201 = ''hyperparameter_testing_d201.csv''"
| "hyperparameter_testing_csv EfficientNetB0 = ''hyperparameter_testing_d201.csv''"
| "hyperparameter_testing_csv ResNet18 = ''hyperparameter_testing_Res18.csv''"

fun best_params_json :: "backbone \<Rightarrow> string" where
  "best_params_json DenseNet201 = ''best_params_d201.json''"
| "best_params_json EfficientNetB0 = ''best_params_eb0.json''"
| "best_params_json ResNet18 = ''best_params_res18.json''"

fun test_results_json :: "backbone \<Rightarrow> string" where
  "test_results_json DenseNet201 = ''test_results_d201.json''"
| "test_results_json EfficientNetB0 = ''test_results_eb0.json''"
| "test_results_json ResNet18 = ''test_results_res18.json''"

section \<open>Loading and splitting the dataset\<close>

text \<open>
  A cell of the frame that \<^verbatim>\<open>pd.read_csv\<close> gives: missing (a blank field, read as
  not-a-number), a number, or text. A row is its \<^verbatim>\<open>filename\<close> (the first column)
  and the columns after it, in order; the notebooks expect at least 15 of them.
\<close>

datatype cell = Missing | Num real | Str string

record annotation =
  filename :: cell
  flags :: "cell list"

text \<open>
  \<^verbatim>\<open>pd.to_numeric(..., errors='coerce')\<close> on one cell. The library's reading of a
  text as a number is the parameter \<open>parse\<close>.
\<close>

definition to_numeric :: "(string \<Rightarrow> real option) \<Rightarrow> cell \<Rightarrow> cell" where
  "to_numeric parse c =
     (case c of
        Missing \<Rightarrow> Missing
      | Num x \<Rightarrow> Num x
      | Str s \<Rightarrow> (case parse s of None \<Rightarrow> Missing | Some x \<Rightarrow> Num x))"


text \<open>
  \<^verbatim>\<open>for col in df.columns[1:16]: df[col] = pd.to_numeric(df[col], errors='coerce')\<close>,
  seen from one row.
\<close>

definition coerce_labels :: "(string \<Rightarrow> real option) \<Rightarrow> annotation \<Rightarrow> annotation" where
  "coerce_labels parse r =
     r\<lparr>flags := map (to_numeric parse) (take 15 (flags r)) @ drop 15 (flags r)\<rparr>"

text \<open>\<^verbatim>\<open>df.dropna(subset=df.columns[:16], inplace=True)\<close>: the first 16 columns.\<close>

definition has_na :: "annotation \<Rightarrow> bool" where
  "has_na r = (Missing \<in> set (filename r # take 15 (flags r)))"

definition dropna :: "annotation list \<Rightarrow> annotation list" where
  "dropna df = filter (\<lambda>r. \<not> has_na r) df"

definition clean_annotations :: "(string \<Rightarrow> real option) \<Rightarrow> annotation list \<Rightarrow> annotation list" where
  "clean_annotations parse df = dropna (map (coerce_labels parse) df)"

text \<open>\<^verbatim>\<open>labels.append(list(row.iloc[1:16]))\<close> for each row.\<close>

definition extract_labels :: "annotation list \<Rightarrow> cell list list" where
  "extract_labels df = map (\<lambda>r. take 15 (flags r)) df"

text \<open>
  The loop over \<^verbatim>\<open>image_names\<close>. Joining the path, opening and converting the image
  are external: the parameter \<open>image_open\<close>, which may raise.
\<close>

fun load_images :: "(cell \<Rightarrow> exn + 'img) \<Rightarrow> cell list \<Rightarrow> 'img list \<Rightarrow> exn + 'img list" where
  "load_images image_open [] images = Inr images"
| "load_images image_open (img_name # rest) images =
     (case image_open img_name of
        Inl ex \<Rightarrow> Inl ex
      | Inr img \<Rightarrow> load_images image_open rest (images @ [img]))"

text \<open>
  \<^verbatim>\<open>train_test_split(X, y, test_size=..., random_state=seed)\<close> of scikit-learn, with
  the default shuffle: \<open>n_test = ceil(test_size * n_samples)\<close>, the rest is the train
  set, an empty train set is a ValueError; the test indices are the first \<open>n_test\<close>
  entries of the random permutation, the train indices the next \<open>n_train\<close>. The
  generator is seeded anew at each call, so the permutation is a function of the seed and
  the length: the parameter \<open>permutation\<close>, whose entries are positions of the
  input, so that \<open>safe_indexing\<close> never reads out of range. The product
  \<open>test_size * n_samples\<close> is taken exactly.
\<close>

definition validate_shuffle_split :: "nat \<Rightarrow> real \<Rightarrow> exn + (nat \<times> nat)" where
  "validate_shuffle_split n_samples test_size =
     (let n_test = nat \<lceil>test_size * real n_samples\<rceil>;
          n_train = n_samples - n_test
      in if n_train = 0 then Inl (ValueError ''the resulting train set will be empty'')
         else Inr (n_train, n_test))"

definition safe_indexing :: "'a list \<Rightarrow> nat list \<Rightarrow> 'a list" where
  "safe_indexing xs indices = map (\<lambda>i. xs ! i) indices"

definition train_test_split ::
  "(nat \<Rightarrow> nat \<Rightarrow> nat list) \<Rightarrow> 'a list \<Rightarrow> 'b list \<Rightarrow> real \<Rightarrow> nat \<Rightarrow>
     exn + ('a list \<times> 'a list \<times> 'b list \<times> 'b list)" where
  "train_test_split permutation X y test_size random_state =
     (if length X \<noteq> length y
      then Inl (ValueError ''Found input variables with inconsistent numbers of samples'')
      else
        (case validate_shuffle_split (length X) test_size of
           Inl ex \<Rightarrow> Inl ex
         | Inr (n_train, n_test) \<Rightarrow>
             (let p = permutation random_state (length X);
                  ind_test = take n_test p;
                  ind_train = take n_train (drop n_test p)
              in Inr (safe_indexing X ind_train, safe_indexing X ind_test,
                      safe_indexing y ind_train, safe_indexing y ind_test))))"

text \<open>
  What the library's generator guarantees: for every length, a permutation of the
  positions.
\<close>

definition is_permutation :: "(nat \<Rightarrow> nat \<Rightarrow> nat list) \<Rightarrow> bool" where
  "is_permutation permutation = (\<forall>seed n. mset (permutation seed n) = mset [0..<n])"

text \<open>
  \<^verbatim>\<open>
  X_train_val, X_test, y_train_val, y_test = train_test_split(images, labels, test_size=1/10, random_state=seed)
  X_train, X_val, y_train, y_val = train_test_split(X_train_val, y_train_val, test_size=1/9, random_state=seed)
  \<close>
\<close>

definition split_data ::
  "(nat \<Rightarrow> nat \<Rightarrow> nat list) \<Rightarrow> 'a list \<Rightarrow> 'b list \<Rightarrow> nat \<Rightarrow>
     exn + ('a list \<times> 'a list \<times> 'a list \<times> 'b list \<times> 'b list \<times> 'b list)" where
  "split_data permutation images labels seed =
     (case train_test_split permutation images labels (1 / 10) seed of
        Inl ex \<Rightarrow> Inl ex
      | Inr (X_train_val, X_test, y_train_val, y_test) \<Rightarrow>
          (case train_test_split permutation X_train_val y_train_val (1 / 9) seed of
             Inl ex \<Rightarrow> Inl ex
           | Inr (X_train, X_val, y_train, y_val) \<Rightarrow>
               Inr (X_train, X_val, X_test, y_train, y_val, y_test)))"

text \<open>
  The second line of the loading cell: \<^verbatim>\<open>df = df[:5]\<close> in the EfficientNet-B0 notebook,
  commented out in the other two.
\<close>

fun head_rows :: "backbone \<Rightarrow> nat option" where
  "head_rows DenseNet201 = None"
| "head_rows EfficientNetB0 = Some 5"
| "head_rows ResNet18 = None"

definition seed :: nat where
  "seed = 42"

text \<open>The loading cell of a notebook, from the rows of \<^verbatim>\<open>annotations.csv\<close>.\<close>

definition load_dataset ::
  "backbone \<Rightarrow> (string \<Rightarrow> real option) \<Rightarrow> (cell \<Rightarrow> exn + 'img) \<Rightarrow> (nat \<Rightarrow> nat \<Rightarrow> nat list) \<Rightarrow>
     annotation list \<Rightarrow>
     exn + ('img list \<times> 'img list \<times> 'img list \<times> cell list list \<times> cell list list \<times> cell list list)" where
  "load_dataset bb parse image_open permutation csv =
     (let df = (case head_rows bb of None \<Rightarrow> csv | Some k \<Rightarrow> take k csv);
          df = clean_annotations parse df;
          labels = extract_labels df;
          image_names = map filename df
      in case load_images image_open image_names [] of
           Inl ex \<Rightarrow> Inl ex
         | Inr images \<Rightarrow> split_data permutation images labels seed)"



section \<open>Persisting and loading the best configuration\<close>









section \<open>Concrete inputs\<close>

text \<open>A training routine that fails at every call, as when the device is out of memory.\<close>

definition failing_train :: "unit train_fn" where
  "failing_train s p = (s, Inl (RuntimeError ''CUDA out of memory''))"

text \<open>
  A training routine over a model that is trained in place: the state is the number of
  epochs the one model object has been trained for so far, and the validation metrics of a
  trial improve with it.
\<close>

definition accumulating_train :: "nat train_fn" where
  "accumulating_train s p = (case p of (t, b, e, l) \<Rightarrow>
     (let total = s + nat e in
      (total, Inr \<lparr>test_loss = [Val (1 / real (Suc total))],
                   test_ham_acc = [Val (1 - 1 / real (Suc total))],
                   test_zero_one_acc = [Val 0]\<rparr>)))"

text \<open>
  A training routine whose metrics are a function of the grid point alone, as with a model
  built anew for each trial; the state only counts the calls.
\<close>

definition fresh_model_train :: "nat train_fn" where
  "fresh_model_train s p = (case p of (t, b, e, l) \<Rightarrow>
     (Suc s, Inr \<lparr>test_loss = [Val l],
                  test_ham_acc = [Val (1 - l)],
                  test_zero_one_acc = [Val 0]\<rparr>))"

text \<open>Two orders of the same two grid points.\<close>

definition point_5_epochs :: hparams where
  "point_5_epochs = (''triv_aug'', 16, 5, 0.001)"

definition point_10_epochs :: hparams where
  "point_10_epochs = (''triv_aug'', 16, 10, 0.001)"

definition order_a :: "hparams list" where
  "order_a = [point_5_epochs, point_10_epochs]"

definition order_b :: "hparams list" where
  "order_b = [point_10_epochs, point_5_epochs]"

text \<open>Three rows with Hamming accuracies 0.80, 0.95 and 0.10.\<close>

definition results_example :: "run_result list" where
  "results_example =
     [\<lparr>transform = ''triv_aug'', batch_size = 16, epochs = 5, lr = 0.001,
       final_test_loss = Val 0.40, final_test_ham_acc = Val 0.80, final_test_zero_one_acc = Val 0.05\<rparr>,
      \<lparr>transform = ''triv_aug'', batch_size = 16, epochs = 5, lr = 0.0001,
       final_test_loss = Val 0.30, final_test_ham_acc = Val 0.95, final_test_zero_one_acc = Val 0.10\<rparr>,
      \<lparr>transform = ''triv_aug'', batch_size = 16, epochs = 5, lr = 0.01,
       final_test_loss = Val 2.50, final_test_ham_acc = Val 0.10, final_test_zero_one_acc = Val 0\<rparr>]"

text \<open>A reading of the two texts a feature flag can be.\<close>

definition parse_flag :: "string \<Rightarrow> real option" where
  "parse_flag s = (if s = ''0'' then Some 0 else if s = ''1'' then Some 1 else None)"





text \<open>A permutation of the positions for every seed and length: the reversal.\<close>

definition reversing_permutation :: "nat \<Rightarrow> nat \<Rightarrow> nat list" where
  "reversing_permutation sd n = rev [0..<n]"

text \<open>Ten images, by name, with a label each.\<close>

definition ten_images :: "string list" where
  "ten_images = [''f0'', ''f1'', ''f2'', ''f3'', ''f4'', ''f5'', ''f6'', ''f7'', ''f8'', ''f9'']"

definition ten_labels :: "cell list list" where
  "ten_labels = [[Num 0], [Num 1], [Num 0], [Num 1], [Num 0], [Num 1], [Num 0], [Num 1], [Num 0], [Num 1]]"

text \<open>An annotations file of seven well-formed rows, and an image store that has every file.\<close>

definition csv_seven :: "annotation list" where
  "csv_seven =
     map (\<lambda>n. \<lparr>filename = Str n, flags = replicate 15 (Num 1)\<rparr>)
       [''f0'', ''f1'', ''f2'', ''f3'', ''f4'', ''f5'', ''f6'']"

definition open_by_name :: "cell \<Rightarrow> exn + string" where
  "open_by_name c =
     (case c of
        Str n \<Rightarrow> Inr n
      | Num x \<Rightarrow> Inl (ValueError ''not a path'')
      | Missing \<Rightarrow> Inl (ValueError ''not a path''))"

text \<open>
  A training routine that runs out of memory at batch size 64 and otherwise returns
  one epoch of metrics; the state counts the trials that went through.
\<close>

definition oom_at_64_train :: "nat train_fn" where
  "oom_at_64_train s p = (case p of (t, b, e, l) \<Rightarrow>
     (if b = 64 then (s, Inl (RuntimeError ''CUDA out of memory''))
      else (Suc s, Inr \<lparr>test_loss = [Val l],
                        test_ham_acc = [Val (1 - l)],
                        test_zero_one_acc = [Val 0]\<rparr>)))"

definition three_points :: "hparams list" where
  "three_points = [(''triv_aug'', 16, 5, 0.001), (''triv_aug'', 64, 5, 0.001), (''d201_transform'', 32, 5, 0.01)]"







section \<open>Properties of the grid\<close>

lemma length_itertools_product:
  "length (itertools_product xs ys zs) = length xs * length ys * length zs"
  by (induction xs) (simp_all add: itertools_product_def length_concat o_def sum_list_triv algebra_simps)

lemma set_itertools_product:
  "set (itertools_product xs ys zs) = set xs \<times> set ys \<times> set zs"
  by (auto simp: itertools_product_def)

lemma itertools_product_eq:
  "itertools_product xs ys zs = List.product xs (List.product ys zs)"
  by (simp add: itertools_product_def List.product_concat_map map_concat o_def)

lemma distinct_itertools_product:
  "distinct xs \<Longrightarrow> distinct ys \<Longrightarrow> distinct zs \<Longrightarrow> distinct (itertools_product xs ys zs)"
  by (simp add: itertools_product_eq distinct_product)

lemma enumerate_grid_eq:
  "enumerate_grid ts bs es ls = List.product ts (itertools_product bs es ls)"
  by (induction ts) (simp_all add: enumerate_grid_def)

lemma distinct_enumerate_grid:
  "distinct ts \<Longrightarrow> distinct bs \<Longrightarrow> distinct es \<Longrightarrow> distinct ls \<Longrightarrow>
   distinct (enumerate_grid ts bs es ls)"
  by (simp add: enumerate_grid_eq distinct_product distinct_itertools_product)

lemma distinct_transform_names: "distinct (transform_names bb)"
  by (cases bb) (simp_all add: transform_names_def)

lemma length_notebook_grid: "length (notebook_grid bb) = 36"
  by (cases bb) (simp_all add: notebook_grid_def enumerate_grid_eq length_itertools_product
      batch_size_choices_def num_epochs_def lrs_def transform_names_def)

lemma distinct_notebook_grid: "distinct (notebook_grid bb)"
  unfolding notebook_grid_def
  by (rule distinct_enumerate_grid)
     (simp_all add: distinct_transform_names batch_size_choices_def num_epochs_def lrs_def)

text \<open>
  Claim C6. Over choice lists of sizes a, b, c, d (batch sizes, epoch counts, learning
  rates, augmentation variants) the grid has exactly a * b * c * d points and is the full
  cross product; when no choice is listed twice, no point is enumerated twice. Each
  notebook's grid has 36 points, all different.
\<close>

theorem enumerate_grid_cross_product:
  "length (enumerate_grid ts bs es ls) = length bs * length es * length ls * length ts
   \<and> set (enumerate_grid ts bs es ls) = set ts \<times> set bs \<times> set es \<times> set ls
   \<and> (distinct ts \<and> distinct bs \<and> distinct es \<and> distinct ls \<longrightarrow>
        distinct (enumerate_grid ts bs es ls)
        \<and> card (set (enumerate_grid ts bs es ls)) = length bs * length es * length ls * length ts)
   \<and> length (notebook_grid bb) = 36
   \<and> distinct (notebook_grid bb)"
proof -
  have len: "length (enumerate_grid ts bs es ls) = length bs * length es * length ls * length ts"
    by (simp add: enumerate_grid_eq length_itertools_product)
  have st: "set (enumerate_grid ts bs es ls) = set ts \<times> set bs \<times> set es \<times> set ls"
    by (simp add: enumerate_grid_eq set_itertools_product)
  have dist: "distinct (enumerate_grid ts bs es ls)"
    if "distinct ts \<and> distinct bs \<and> distinct es \<and> distinct ls"
    using that by (simp add: distinct_enumerate_grid)
  have crd: "card (set (enumerate_grid ts bs es ls)) = length bs * length es * length ls * length ts"
    if "distinct ts \<and> distinct bs \<and> distinct es \<and> distinct ls"
    using dist [OF that] len by (simp add: distinct_card)
  show ?thesis
    using len st dist crd length_notebook_grid distinct_notebook_grid by blast
qed

text \<open>The grid of the end-to-end scenario: 2 * 1 * 2 * 2 = 8 trials.\<close>

theorem enumerate_grid_cross_product_witness:
  "distinct [''baseline'', ''trivial''] \<and> distinct [16, 32 :: int] \<and> distinct [5 :: int]
   \<and> distinct [0.001, 0.01 :: real]
   \<and> length (enumerate_grid [''baseline'', ''trivial''] [16, 32] [5] [0.001, 0.01]) = 8
   \<and> distinct (enumerate_grid [''baseline'', ''trivial''] [16, 32] [5] [0.001, 0.01])"
  using enumerate_grid_cross_product [of "[''baseline'', ''trivial'']" "[16, 32]" "[5]" "[0.001, 0.01]"]
  by simp

section \<open>Properties of the sweep\<close>

lemma point_of_nan_row: "point_of (nan_row p) = p"
  by (cases p) (simp add: point_of_def nan_row_def)

lemma try_body_point: "try_body train s p = (s', Inr r) \<Longrightarrow> point_of r = p"
  by (cases p) (auto simp: try_body_def point_of_def split: prod.splits sum.splits)

lemma try_body_raise: "snd (train s p) = Inl ex \<Longrightarrow> snd (try_body train s p) = Inl ex"
  by (cases p; cases "train s p") (auto simp: try_body_def)

lemma run_trial_point: "point_of (snd (run_trial train s p)) = p"
  by (auto simp: run_trial_def point_of_nan_row split: prod.splits sum.splits dest: try_body_point)

lemma run_trial_raise: "snd (train s p) = Inl ex \<Longrightarrow> snd (run_trial train s p) = nan_row p"
  using try_body_raise [of train s p ex]
  by (auto simp: run_trial_def split: prod.splits sum.splits)

lemma sweep_points_acc:
  "sweep_points train s ps acc =
     (fst (sweep_points train s ps []), acc @ snd (sweep_points train s ps []))"
proof (induction ps arbitrary: s acc)
  case Nil
  show ?case by simp
next
  case (Cons p ps)
  obtain s' r where rt: "run_trial train s p = (s', r)" by (cases "run_trial train s p")
  show ?case
    using Cons.IH [of s' "acc @ [r]"] Cons.IH [of s' "[r]"] by (simp add: rt)
qed

lemma sweep_points_Cons:
  "snd (sweep_points train s (p # ps) []) =
     snd (run_trial train s p) # snd (sweep_points train (fst (run_trial train s p)) ps [])"
  "fst (sweep_points train s (p # ps) []) =
     fst (sweep_points train (fst (run_trial train s p)) ps [])"
proof -
  obtain s' r where rt: "run_trial train s p = (s', r)" by (cases "run_trial train s p")
  have "sweep_points train s' ps [r] =
          (fst (sweep_points train s' ps []), [r] @ snd (sweep_points train s' ps []))"
    by (rule sweep_points_acc)
  then show
    "snd (sweep_points train s (p # ps) []) =
       snd (run_trial train s p) # snd (sweep_points train (fst (run_trial train s p)) ps [])"
    "fst (sweep_points train s (p # ps) []) =
       fst (sweep_points train (fst (run_trial train s p)) ps [])"
    by (simp_all add: rt)
qed


lemma sweep_points_points: "map point_of (snd (sweep_points train s ps [])) = ps"
  by (induction ps arbitrary: s) (simp_all add: sweep_points_Cons run_trial_point del: sweep_points.simps(2))

lemma length_sweep_points: "length (snd (sweep_points train s ps [])) = length ps"
  using sweep_points_points [of train s ps] by (metis length_map)

lemma sweep_points_nth:
  "i < length ps \<Longrightarrow>
   snd (sweep_points train s ps []) ! i =
     snd (run_trial train (fst (sweep_points train s (take i ps) [])) (ps ! i))"
proof (induction ps arbitrary: s i)
  case Nil
  then show ?case by simp
next
  case (Cons p ps)
  show ?case
  proof (cases i)
    case 0
    then show ?thesis by (simp add: sweep_points_Cons del: sweep_points.simps(2))
  next
    case (Suc j)
    with Cons.prems have "j < length ps" by simp
    from Cons.IH [OF this] show ?thesis
      by (simp add: Suc sweep_points_Cons del: sweep_points.simps(2))
  qed
qed

lemma sweep_points_all_fail:
  "(\<forall>s p. \<exists>ex. snd (train s p) = Inl ex) \<Longrightarrow>
   snd (sweep_points train s ps []) = map nan_row ps"
proof (induction ps arbitrary: s)
  case Nil
  show ?case by simp
next
  case (Cons p ps)
  from Cons.prems obtain ex where "snd (train s p) = Inl ex" by blast
  then have "snd (run_trial train s p) = nan_row p" by (rule run_trial_raise)
  with Cons show ?case by (simp add: sweep_points_Cons del: sweep_points.simps(2))
qed

lemma sweep_combos_points:
  "sweep_combos train t s cs acc =
     sweep_points train s (map (\<lambda>(b, e, l). (t, b, e, l)) cs) acc"
  by (induction train t s cs acc rule: sweep_combos.induct) (simp_all split: prod.splits)

lemma sweep_points_append:
  "sweep_points train s (ps @ qs) acc =
     (case sweep_points train s ps acc of (s', acc') \<Rightarrow> sweep_points train s' qs acc')"
  by (induction train s ps acc rule: sweep_points.induct) (simp_all split: prod.splits)

lemma sweep_transforms_points:
  "sweep_transforms train s ts combos acc =
     sweep_points train s
       (concat (map (\<lambda>t. map (\<lambda>(b, e, l). (t, b, e, l)) combos) ts)) acc"
  by (induction train s ts combos acc rule: sweep_transforms.induct)
     (simp_all add: sweep_combos_points sweep_points_append split: prod.splits)

lemma hyperparameter_testing_points:
  "hyperparameter_testing train s bb = sweep_points train s (notebook_grid bb) []"
  by (simp add: hyperparameter_testing_def sweep_transforms_points notebook_grid_def
      enumerate_grid_def hyperparameter_combos_def)

lemma metrics_of_nan_row: "metrics_of (nan_row p) = (NaN, NaN, NaN)"
  by (cases p) (simp add: metrics_of_def nan_row_def)

lemma run_trial_success:
  assumes "snd (train s p) = Inr tr"
    and "test_loss tr \<noteq> []" and "test_ham_acc tr \<noteq> []" and "test_zero_one_acc tr \<noteq> []"
  shows "metrics_of (snd (run_trial train s p)) =
           (last (test_loss tr), last (test_ham_acc tr), last (test_zero_one_acc tr))"
  using assms
  by (cases p; cases "train s p")
     (simp add: run_trial_def try_body_def last_item_def metrics_of_def)

text \<open>
  Claim C1. The two nested loops are one pass over the grid in its order, with one row
  appended per point, so the results have the points of the grid in order and as many
  rows as the grid has points (36 in a notebook). At any trial in which the training
  routine raises, from the state the earlier trials left, the row recorded for the point
  has not-a-number as its loss, its Hamming accuracy and its zero-one accuracy, and the pass
  goes on; at a trial in which the routine returns its histories, the row has their last
  entries. When the routine raises at every call, every row has the three metrics
  not-a-number and none is missing.
\<close>

theorem sweep_records_every_point:
  "hyperparameter_testing train s bb = sweep_points train s (notebook_grid bb) []
   \<and> length (snd (hyperparameter_testing train s bb)) = 36
   \<and> map point_of (snd (sweep_points train s ps [])) = ps
   \<and> length (snd (sweep_points train s ps [])) = length ps
   \<and> (\<forall>i<length ps.
         (\<exists>ex. snd (train (fst (sweep_points train s (take i ps) [])) (ps ! i)) = Inl ex) \<longrightarrow>
         snd (sweep_points train s ps []) ! i = nan_row (ps ! i)
         \<and> point_of (snd (sweep_points train s ps []) ! i) = ps ! i
         \<and> final_test_loss (snd (sweep_points train s ps []) ! i) = NaN
         \<and> final_test_ham_acc (snd (sweep_points train s ps []) ! i) = NaN
         \<and> final_test_zero_one_acc (snd (sweep_points train s ps []) ! i) = NaN)
   \<and> (\<forall>i<length ps. \<forall>tr.
         snd (train (fst (sweep_points train s (take i ps) [])) (ps ! i)) = Inr tr
         \<and> test_loss tr \<noteq> [] \<and> test_ham_acc tr \<noteq> [] \<and> test_zero_one_acc tr \<noteq> [] \<longrightarrow>
         point_of (snd (sweep_points train s ps []) ! i) = ps ! i
         \<and> final_test_loss (snd (sweep_points train s ps []) ! i) = last (test_loss tr)
         \<and> final_test_ham_acc (snd (sweep_points train s ps []) ! i) = last (test_ham_acc tr)
         \<and> final_test_zero_one_acc (snd (sweep_points train s ps []) ! i) =
             last (test_zero_one_acc tr))
   \<and> ((\<forall>s' p. \<exists>ex. snd (train s' p) = Inl ex) \<longrightarrow>
         snd (sweep_points train s ps []) = map nan_row ps
         \<and> map metrics_of (snd (sweep_points train s ps [])) =
             replicate (length ps) (NaN, NaN, NaN))"
proof -
  let ?rs = "snd (sweep_points train s ps [])"
  have a: "hyperparameter_testing train s bb = sweep_points train s (notebook_grid bb) []"
    by (rule hyperparameter_testing_points)
  have b: "length (snd (hyperparameter_testing train s bb)) = 36"
    by (simp add: a length_sweep_points length_notebook_grid)
  have pts: "map point_of ?rs = ps"
    by (rule sweep_points_points)
  have len: "length ?rs = length ps"
    by (rule length_sweep_points)
  have pt: "point_of (?rs ! i) = ps ! i" if "i < length ps" for i
    using that by (simp add: sweep_points_nth run_trial_point)
  have c: "?rs ! i = nan_row (ps ! i)
         \<and> point_of (?rs ! i) = ps ! i
         \<and> final_test_loss (?rs ! i) = NaN
         \<and> final_test_ham_acc (?rs ! i) = NaN
         \<and> final_test_zero_one_acc (?rs ! i) = NaN"
    if i: "i < length ps"
      and ex: "\<exists>ex. snd (train (fst (sweep_points train s (take i ps) [])) (ps ! i)) = Inl ex"
    for i
  proof -
    from ex obtain ex' where
      "snd (train (fst (sweep_points train s (take i ps) [])) (ps ! i)) = Inl ex'"
      by blast
    then have row: "?rs ! i = nan_row (ps ! i)"
      using i by (simp add: sweep_points_nth run_trial_raise)
    have "metrics_of (?rs ! i) = (NaN, NaN, NaN)"
      by (simp only: row metrics_of_nan_row)
    with row pt [OF i] show ?thesis
      by (simp add: metrics_of_def)
  qed
  have d: "point_of (?rs ! i) = ps ! i
         \<and> final_test_loss (?rs ! i) = last (test_loss tr)
         \<and> final_test_ham_acc (?rs ! i) = last (test_ham_acc tr)
         \<and> final_test_zero_one_acc (?rs ! i) = last (test_zero_one_acc tr)"
    if i: "i < length ps"
      and ok: "snd (train (fst (sweep_points train s (take i ps) [])) (ps ! i)) = Inr tr
         \<and> test_loss tr \<noteq> [] \<and> test_ham_acc tr \<noteq> [] \<and> test_zero_one_acc tr \<noteq> []"
    for i tr
  proof -
    from ok have "metrics_of (snd (run_trial train (fst (sweep_points train s (take i ps) [])) (ps ! i))) =
           (last (test_loss tr), last (test_ham_acc tr), last (test_zero_one_acc tr))"
      by (intro run_trial_success) simp_all
    then have "metrics_of (?rs ! i) =
           (last (test_loss tr), last (test_ham_acc tr), last (test_zero_one_acc tr))"
      using i by (simp add: sweep_points_nth)
    with pt [OF i] show ?thesis
      by (simp add: metrics_of_def)
  qed
  have e: "?rs = map nan_row ps \<and> map metrics_of ?rs = replicate (length ps) (NaN, NaN, NaN)"
    if all: "\<forall>s' p. \<exists>ex. snd (train s' p) = Inl ex"
  proof -
    from all have rows: "?rs = map nan_row ps"
      by (rule sweep_points_all_fail)
    have "map metrics_of (map nan_row ps) = replicate (length ps) (NaN, NaN, NaN)"
      by (induction ps) (simp_all add: metrics_of_nan_row)
    with rows show ?thesis by simp
  qed
  show ?thesis
    using a b pts len c d e by blast
qed

text \<open>
  The always-failing routine on the DenseNet201 grid, and a routine that fails at batch
  size 64 only, on three points: the failed trial is recorded with not-a-number metrics
  between two trials recorded with theirs.
\<close>

theorem sweep_records_every_point_witness:
  "(\<forall>s' p. \<exists>ex. snd (failing_train s' p) = Inl ex)
   \<and> length (snd (hyperparameter_testing failing_train () DenseNet201)) = 36
   \<and> snd (hyperparameter_testing failing_train () DenseNet201) =
       map nan_row (notebook_grid DenseNet201)
   \<and> map metrics_of (snd (hyperparameter_testing failing_train () DenseNet201)) =
       replicate 36 (NaN, NaN, NaN)
   \<and> (\<exists>ex. snd (oom_at_64_train
                  (fst (sweep_points oom_at_64_train 0 (take 1 three_points) []))
                  (three_points ! 1)) = Inl ex)
   \<and> map metrics_of (snd (sweep_points oom_at_64_train 0 three_points [])) =
       [(Val 0.001, Val 0.999, Val 0), (NaN, NaN, NaN), (Val 0.01, Val 0.99, Val 0)]
   \<and> map point_of (snd (sweep_points oom_at_64_train 0 three_points [])) = three_points"
proof -
  have f: "\<forall>s' p. \<exists>ex. snd (failing_train s' p) = Inl ex"
    by (simp add: failing_train_def)
  note t = sweep_records_every_point [of failing_train "()" DenseNet201 "notebook_grid DenseNet201"]
  from t have e: "hyperparameter_testing failing_train () DenseNet201 =
      sweep_points failing_train () (notebook_grid DenseNet201) []"
    by blast
  from t have l: "length (snd (hyperparameter_testing failing_train () DenseNet201)) = 36"
    by blast
  from t f have m: "snd (sweep_points failing_train () (notebook_grid DenseNet201) []) =
      map nan_row (notebook_grid DenseNet201)"
    by blast
  from t f have n: "map metrics_of (snd (sweep_points failing_train () (notebook_grid DenseNet201) [])) =
      replicate (length (notebook_grid DenseNet201)) (NaN, NaN, NaN)"
    by blast
  have n': "map metrics_of (snd (hyperparameter_testing failing_train () DenseNet201)) =
       replicate 36 (NaN, NaN, NaN)"
    using n by (simp only: e length_notebook_grid)
  have m': "snd (hyperparameter_testing failing_train () DenseNet201) =
       map nan_row (notebook_grid DenseNet201)"
    using m by (simp only: e)
  note u = sweep_records_every_point [of oom_at_64_train 0 DenseNet201 three_points]
  have raise: "\<exists>ex. snd (oom_at_64_train
                  (fst (sweep_points oom_at_64_train 0 (take 1 three_points) []))
                  (three_points ! 1)) = Inl ex"
    by (simp add: three_points_def oom_at_64_train_def)
  have one: "(1::nat) < length three_points"
    by (simp add: three_points_def)
  from u one raise have nanrow:
    "final_test_ham_acc (snd (sweep_points oom_at_64_train 0 three_points []) ! 1) = NaN"
    by blast
  have mets: "map metrics_of (snd (sweep_points oom_at_64_train 0 three_points [])) =
       [(Val 0.001, Val 0.999, Val 0), (NaN, NaN, NaN), (Val 0.01, Val 0.99, Val 0)]"
    by (simp add: three_points_def oom_at_64_train_def run_trial_def try_body_def last_item_def
        nan_row_def metrics_of_def)
  from u have pts: "map point_of (snd (sweep_points oom_at_64_train 0 three_points [])) = three_points"
    by blast
  show ?thesis
    using f l m' n' raise mets pts nanrow by blast
qed

section \<open>The order of the trials\<close>

lemma run_trial_stateless:
  "snd (train s p) = snd (train s' p) \<Longrightarrow> snd (run_trial train s p) = snd (run_trial train s' p)"
  by (cases p; cases "train s p"; cases "train s' p")
     (auto simp: run_trial_def try_body_def split: sum.splits)

lemma sweep_points_stateless:
  "(\<forall>s s' p. snd (train s p) = snd (train s' p)) \<Longrightarrow>
   snd (sweep_points train s ps []) = map (\<lambda>p. snd (run_trial train s0 p)) ps"
proof (induction ps arbitrary: s)
  case Nil
  show ?case by simp
next
  case (Cons p ps)
  from Cons.prems have "snd (run_trial train s p) = snd (run_trial train s0 p)"
    by (intro run_trial_stateless) blast
  with Cons show ?case by (simp add: sweep_points_Cons del: sweep_points.simps(2))
qed

lemma result_for_map:
  "result_for p (map (\<lambda>q. snd (run_trial train s0 q)) ps) =
     (if p \<in> set ps then Some (metrics_of (snd (run_trial train s0 p))) else None)"
  by (induction ps) (auto simp: result_for_def run_trial_point)

text \<open>
  Claim C4, as amended. When the outcome that the training routine gives for a grid point
  does not depend on the state left by the trials before it, two orders of the same grid
  give every point the same metrics, and the same rows altogether. The notebooks call the
  routine on one model object, trained in place from trial to trial, so nothing in them
  makes the outcome independent of that state.
\<close>

theorem sweep_order_independent_without_state:
  assumes "\<forall>s s' p. snd (train s p) = snd (train s' p)"
    and "mset g = mset g'"
  shows "result_for p (snd (sweep_points train s g [])) =
         result_for p (snd (sweep_points train s' g' []))
       \<and> mset (snd (sweep_points train s g [])) = mset (snd (sweep_points train s' g' []))"
proof -
  have g: "snd (sweep_points train s g []) = map (\<lambda>p. snd (run_trial train s p)) g"
    using assms(1) by (rule sweep_points_stateless)
  have g': "snd (sweep_points train s' g' []) = map (\<lambda>p. snd (run_trial train s p)) g'"
    using assms(1) by (rule sweep_points_stateless)
  have "set g = set g'"
    using assms(2) by (rule mset_eq_setD)
  then have "result_for p (snd (sweep_points train s g [])) =
         result_for p (snd (sweep_points train s' g' []))"
    by (simp only: g g' result_for_map)
  moreover have "mset (snd (sweep_points train s g [])) = mset (snd (sweep_points train s' g' []))"
    unfolding g g' using assms(2) by (metis mset_map)
  ultimately show ?thesis by blast
qed

text \<open>A routine with a model built anew for each trial, on two orders of two points.\<close>

theorem sweep_order_independent_without_state_witness:
  "(\<forall>s s' p. snd (fresh_model_train s p) = snd (fresh_model_train s' p))
   \<and> mset order_a = mset order_b
   \<and> result_for point_5_epochs (snd (sweep_points fresh_model_train 0 order_a [])) =
       result_for point_5_epochs (snd (sweep_points fresh_model_train 0 order_b []))
   \<and> result_for point_5_epochs (snd (sweep_points fresh_model_train 0 order_a [])) =
       Some (Val 0.001, Val 0.999, Val 0)"
proof -
  have a: "\<forall>s s' p. snd (fresh_model_train s p) = snd (fresh_model_train s' p)"
    by (simp add: fresh_model_train_def split: prod.splits)
  have b: "mset order_a = mset order_b"
    by (simp add: order_a_def order_b_def)
  have c: "result_for point_5_epochs (snd (sweep_points fresh_model_train 0 order_a [])) =
       Some (Val 0.001, Val 0.999, Val 0)"
    by (simp add: order_a_def point_5_epochs_def point_10_epochs_def result_for_def
        run_trial_def try_body_def fresh_model_train_def last_item_def point_of_def metrics_of_def)
  show ?thesis
    using a b c sweep_order_independent_without_state [OF a b, of point_5_epochs 0 0]
    by blast
qed

text \<open>
  Claim C4 as stated fails: with a model that keeps what the earlier trials taught it, the
  5-epoch point is recorded after 5 epochs of training in one order and after 15 in the
  other, with different metrics.
\<close>

theorem sweep_order_dependent_counterexample:
  "mset order_a = mset order_b
   \<and> result_for point_5_epochs (snd (sweep_points accumulating_train 0 order_a [])) =
       Some (Val (1 / 6), Val (5 / 6), Val 0)
   \<and> result_for point_5_epochs (snd (sweep_points accumulating_train 0 order_b [])) =
       Some (Val (1 / 16), Val (15 / 16), Val 0)
   \<and> result_for point_5_epochs (snd (sweep_points accumulating_train 0 order_a [])) \<noteq>
       result_for point_5_epochs (snd (sweep_points accumulating_train 0 order_b []))"
  by (simp add: order_a_def order_b_def point_5_epochs_def point_10_epochs_def result_for_def
      run_trial_def try_body_def accumulating_train_def last_item_def point_of_def metrics_of_def
      Let_def)

section \<open>Properties of the selection\<close>

lemma idxmax_from_append:
  "idxmax_from i best (xs @ ys) = idxmax_from (i + length xs) (idxmax_from i best xs) ys"
  by (induction i best xs rule: idxmax_from.induct) simp_all

lemma idxmax_from_snoc_NaN:
  "idxmax_from 0 None (xs @ [NaN]) = idxmax_from 0 None xs"
  by (simp add: idxmax_from_append)

lemma idxmax_from_snoc_Val:
  "idxmax_from 0 None (xs @ [Val v]) =
     (case idxmax_from 0 None xs of
        None \<Rightarrow> Some (length xs, v)
      | Some (j, w) \<Rightarrow> if w < v then Some (length xs, v) else Some (j, w))"
  by (simp add: idxmax_from_append)

lemma idxmax_from_None:
  "idxmax_from 0 None xs = None \<Longrightarrow> x \<in> set xs \<Longrightarrow> x = NaN"
proof (induction xs rule: rev_induct)
  case Nil
  then show ?case by simp
next
  case (snoc y ys)
  show ?case
  proof (cases y)
    case NaN
    with snoc show ?thesis by (auto simp: idxmax_from_snoc_NaN)
  next
    case (Val v)
    with snoc.prems(1) show ?thesis
      by (simp add: idxmax_from_snoc_Val split: option.splits prod.splits if_splits)
  qed
qed

lemma idxmax_from_first_max:
  "idxmax_from 0 None xs = Some (k, v) \<Longrightarrow>
   k < length xs \<and> xs ! k = Val v
   \<and> (\<forall>m<length xs. \<forall>w. xs ! m = Val w \<longrightarrow> w \<le> v \<and> (m < k \<longrightarrow> w < v))"
proof (induction xs arbitrary: k v rule: rev_induct)
  case Nil
  then show ?case by simp
next
  case (snoc y ys)
  show ?case
  proof (cases y)
    case NaN
    with snoc.prems have "idxmax_from 0 None ys = Some (k, v)"
      by (simp add: idxmax_from_snoc_NaN)
    from snoc.IH [OF this] show ?thesis
      by (auto simp: nth_append NaN less_Suc_eq)
  next
    case (Val u)
    show ?thesis
    proof (cases "idxmax_from 0 None ys")
      case None
      with snoc.prems have kv: "k = length ys" "v = u"
        by (simp_all add: Val idxmax_from_snoc_Val)
      have "\<forall>m<length ys. ys ! m = NaN"
        using idxmax_from_None [OF None] by simp
      then show ?thesis
        by (auto simp: kv Val nth_append less_Suc_eq)
    next
      case (Some jw)
      obtain j w where jw: "jw = (j, w)" by (cases jw)
      note ih = snoc.IH [OF Some [unfolded jw]]
      show ?thesis
      proof (cases "w < u")
        case True
        with snoc.prems have kv: "k = length ys" "v = u"
          by (simp_all add: Val idxmax_from_snoc_Val Some jw)
        have "w' \<le> u \<and> (m < length ys \<longrightarrow> w' < u)"
          if m: "m < length (ys @ [y])" and w': "(ys @ [y]) ! m = Val w'" for m w'
        proof (cases "m < length ys")
          case inside: True
          with ih w' have "w' \<le> w" by (simp add: nth_append)
          with True inside show ?thesis by simp
        next
          case outside: False
          with m have "m = length ys" by simp
          with w' have "w' = u" by (simp add: Val)
          with outside show ?thesis by simp
        qed
        then show ?thesis
          by (simp add: kv Val)
      next
        case False
        with snoc.prems have kv: "k = j" "v = w"
          by (simp_all add: Val idxmax_from_snoc_Val Some jw)
        from ih have j: "j < length ys" and yj: "ys ! j = Val w" by simp_all
        have "w' \<le> w \<and> (m < j \<longrightarrow> w' < w)"
          if m: "m < length (ys @ [y])" and w': "(ys @ [y]) ! m = Val w'" for m w'
        proof (cases "m < length ys")
          case True
          with ih w' show ?thesis by (simp add: nth_append)
        next
          case outside: False
          with m have "m = length ys" by simp
          with w' have "w' = u" by (simp add: Val)
          with False j outside show ?thesis by simp
        qed
        then have rest: "\<forall>m<length (ys @ [y]). \<forall>w'. (ys @ [y]) ! m = Val w' \<longrightarrow>
            w' \<le> w \<and> (m < j \<longrightarrow> w' < w)"
          by blast
        have "j < length (ys @ [y])"
          using j by simp
        moreover have "(ys @ [y]) ! j = Val w"
          using j yj by (simp add: nth_append)
        ultimately show ?thesis
          unfolding kv using rest by blast
      qed
    qed
  qed
qed

lemma idxmax_defined:
  assumes "\<exists>x\<in>set xs. x \<noteq> NaN"
  shows "\<exists>k v. idxmax xs = Inr k \<and> k < length xs \<and> xs ! k = Val v
     \<and> (\<forall>m<length xs. \<forall>w. xs ! m = Val w \<longrightarrow> w \<le> v \<and> (m < k \<longrightarrow> w < v))"
proof (cases "idxmax_from 0 None xs")
  case None
  with assms show ?thesis using idxmax_from_None by blast
next
  case (Some kv)
  obtain k v where kv: "kv = (k, v)" by (cases kv)
  from idxmax_from_first_max [OF Some [unfolded kv]] show ?thesis
    by (auto simp: idxmax_def Some kv)
qed

text \<open>
  Claim C2. When at least one row has a defined Hamming accuracy, the selection returns a
  row of the results whose Hamming accuracy is defined and is at least that of every row
  with a defined one; rows with an undefined one are passed over. Among several rows with
  the maximum it is the first.
\<close>

theorem select_best_maximal:
  assumes "\<exists>r\<in>set rs. final_test_ham_acc r \<noteq> NaN"
  shows "\<exists>i v. i < length rs \<and> select_best rs = Inr (rs ! i)
     \<and> final_test_ham_acc (rs ! i) = Val v
     \<and> (\<forall>r\<in>set rs. \<forall>w. final_test_ham_acc r = Val w \<longrightarrow> w \<le> v)
     \<and> (\<forall>j<i. \<forall>w. final_test_ham_acc (rs ! j) = Val w \<longrightarrow> w < v)"
proof -
  from assms have "\<exists>x\<in>set (map final_test_ham_acc rs). x \<noteq> NaN" by auto
  from idxmax_defined [OF this] obtain k v where
    k: "idxmax (map final_test_ham_acc rs) = Inr k" "k < length rs"
      "final_test_ham_acc (rs ! k) = Val v" and
    mx: "\<forall>m<length rs. \<forall>w. final_test_ham_acc (rs ! m) = Val w \<longrightarrow> w \<le> v \<and> (m < k \<longrightarrow> w < v)"
    by auto
  have sel: "select_best rs = Inr (rs ! k)"
    by (simp add: select_best_def k loc_def)
  have all: "\<forall>r\<in>set rs. \<forall>w. final_test_ham_acc r = Val w \<longrightarrow> w \<le> v"
    using mx by (auto simp: in_set_conv_nth)
  have first: "\<forall>j<k. \<forall>w. final_test_ham_acc (rs ! j) = Val w \<longrightarrow> w < v"
  proof (intro allI impI)
    fix j w assume j: "j < k" and w: "final_test_ham_acc (rs ! j) = Val w"
    from j k(2) have "j < length rs" by simp
    with mx j w show "w < v" by blast
  qed
  show ?thesis
    using k(2,3) sel all first by blast
qed

text \<open>Hamming accuracies 0.80, 0.95, 0.10: the 0.95 row is returned.\<close>

theorem select_best_maximal_witness:
  "(\<exists>r\<in>set results_example. final_test_ham_acc r \<noteq> NaN)
   \<and> map final_test_ham_acc results_example = [Val 0.80, Val 0.95, Val 0.10]
   \<and> select_best results_example = Inr (results_example ! 1)
   \<and> final_test_ham_acc (results_example ! 1) = Val 0.95"
proof -
  have ex: "\<exists>r\<in>set results_example. final_test_ham_acc r \<noteq> NaN"
    by (simp add: results_example_def)
  have col: "map final_test_ham_acc results_example = [Val 0.80, Val 0.95, Val 0.10]"
    by (simp add: results_example_def)
  have sel: "select_best results_example = Inr (results_example ! 1)"
    by (simp add: select_best_def col idxmax_def loc_def) (simp add: results_example_def)
  have ham: "final_test_ham_acc (results_example ! 1) = Val 0.95"
    by (simp add: results_example_def)
  show ?thesis
    using ex col sel ham select_best_maximal [OF ex] by blast
qed

text \<open>Undefined rows around the three rows change nothing; with only undefined rows the cell fails.\<close>

lemma select_best_skips_nan:
  "select_best (nan_row point_5_epochs # results_example @ [nan_row point_10_epochs]) =
     Inr (results_example ! 1)"
  by (simp add: select_best_def idxmax_def loc_def results_example_def nan_row_def
      point_5_epochs_def point_10_epochs_def)

lemma select_best_all_nan:
  "select_best (map nan_row ps) = Inl (ValueError ''attempt to get argmax of an empty sequence'')"
proof -
  have "idxmax_from i None (map final_test_ham_acc (map nan_row ps)) = None" for i
    by (induction ps arbitrary: i) (simp_all add: nan_row_def split: prod.splits)
  then show ?thesis by (simp add: select_best_def idxmax_def)
qed

section \<open>The guard of the retrain\<close>

text \<open>
  In the ResNet-18 notebook the guard accepts exactly the two names its grid records and
  gives each the pipeline the grid paired it with.
\<close>

lemma retrain_guard_res18:
  "retrain_train_data ResNet18 t =
     (case map_of (transform_variants ResNet18) t of
        Some a \<Rightarrow> Inr a
      | None \<Rightarrow> Inl (ValueError (''Unknown transform: '' @ t)))"
  by simp

text \<open>
  Claim C3 at the inputs where the code departs from it. In the DenseNet201 notebook the
  name \<^verbatim>\<open>d201_transform\<close>, which its own grid records, is rejected as unknown, and
  \<^verbatim>\<open>res18_transform\<close>, which its grid never records, is accepted. The EfficientNet-B0
  notebook rejects nothing, and retrains on the plain training pipeline also when the
  trivial augmentation won.
\<close>

theorem retrain_guard_d201_mismatch:
  "''d201_transform'' \<in> set (transform_names DenseNet201)
   \<and> retrain_train_data DenseNet201 ''d201_transform'' =
       Inl (ValueError ''Unknown transform: d201_transform'')
   \<and> ''res18_transform'' \<notin> set (transform_names DenseNet201)
   \<and> retrain_train_data DenseNet201 ''res18_transform'' = Inr TrainTransform
   \<and> ''unknown_transform'' \<notin> set (transform_names EfficientNetB0)
   \<and> retrain_train_data EfficientNetB0 ''unknown_transform'' = Inr TrainTransform
   \<and> map_of (transform_variants EfficientNetB0) ''triv_aug'' = Some TrivAug
   \<and> retrain_train_data EfficientNetB0 ''triv_aug'' = Inr TrainTransform"
  by (simp add: transform_names_def)

section \<open>The names of the persisted files\<close>

text \<open>In every notebook the two JSON files carry the notebook's own tag.\<close>

lemma json_names_follow_tag:
  "best_params_json bb = ''best_params_'' @ backbone_tag bb @ ''.json''
   \<and> test_results_json bb = ''test_results_'' @ backbone_tag bb @ ''.json''"
  by (cases bb) simp_all

text \<open>
  Claim C9 at the input where the code departs from it. The EfficientNet-B0 notebook writes
  its trial results under the DenseNet201 name, the very file the DenseNet201 notebook
  writes, while its two JSON files carry its own tag; the ResNet-18 notebook spells the tag
  of its CSV file with a capital letter.
\<close>

theorem hyperparameter_csv_name_mismatch:
  "hyperparameter_testing_csv EfficientNetB0 = ''hyperparameter_testing_d201.csv''
   \<and> hyperparameter_testing_csv EfficientNetB0 \<noteq>
       ''hyperparameter_testing_'' @ backbone_tag EfficientNetB0 @ ''.csv''
   \<and> hyperparameter_testing_csv EfficientNetB0 = hyperparameter_testing_csv DenseNet201
   \<and> hyperparameter_testing_csv DenseNet201 =
       ''hyperparameter_testing_'' @ backbone_tag DenseNet201 @ ''.csv''
   \<and> hyperparameter_testing_csv ResNet18 \<noteq>
       ''hyperparameter_testing_'' @ backbone_tag ResNet18 @ ''.csv''
   \<and> best_params_json EfficientNetB0 = ''best_params_'' @ backbone_tag EfficientNetB0 @ ''.json''
   \<and> test_results_json EfficientNetB0 = ''test_results_'' @ backbone_tag EfficientNetB0 @ ''.json''"
  by simp

section \<open>Properties of the loading\<close>
















section \<open>Properties of the split\<close>

text \<open>
  The two test sizes, exactly: a tenth and a ninth, rounded up. A split of fewer than two
  examples fails, since it would leave an empty train set.
\<close>

lemma n_test_tenth: "nat \<lceil>(1 / 10) * real n\<rceil> = (n + 9) div 10"
  by linarith

lemma n_test_ninth: "nat \<lceil>(1 / 9) * real n\<rceil> = (n + 8) div 9"
  by linarith

lemma validate_shuffle_split_tenth:
  "validate_shuffle_split n (1 / 10) =
     (if n \<le> 1 then Inl (ValueError ''the resulting train set will be empty'')
      else Inr (n - (n + 9) div 10, (n + 9) div 10))"
proof -
  have "n - (n + 9) div 10 = 0 \<longleftrightarrow> n \<le> 1" by arith
  then show ?thesis
    unfolding validate_shuffle_split_def n_test_tenth Let_def by simp
qed

lemma validate_shuffle_split_ninth:
  "validate_shuffle_split n (1 / 9) =
     (if n \<le> 1 then Inl (ValueError ''the resulting train set will be empty'')
      else Inr (n - (n + 8) div 9, (n + 8) div 9))"
proof -
  have "n - (n + 8) div 9 = 0 \<longleftrightarrow> n \<le> 1" by arith
  then show ?thesis
    unfolding validate_shuffle_split_def n_test_ninth Let_def by simp
qed

lemma length_safe_indexing: "length (safe_indexing xs indices) = length indices"
  by (simp add: safe_indexing_def)

lemma safe_indexing_twice:
  "\<forall>j\<in>set js. j < length idx \<Longrightarrow>
   safe_indexing (safe_indexing xs idx) js = safe_indexing xs (map ((!) idx) js)"
  by (simp add: safe_indexing_def)

lemma is_permutation_length: "is_permutation permutation \<Longrightarrow> length (permutation sd n) = n"
  unfolding is_permutation_def by (metis length_upt mset_eq_length minus_nat.diff_0)

lemma is_permutation_set: "is_permutation permutation \<Longrightarrow> set (permutation sd n) = {0..<n}"
  unfolding is_permutation_def by (metis mset_eq_setD set_upt)

lemma mset_map_nth_permutation:
  assumes "mset q = mset [0..<length idx]"
  shows "mset (map ((!) idx) q) = mset idx"
proof -
  have "mset (map ((!) idx) q) = mset (map ((!) idx) [0..<length idx])"
    using assms by (metis mset_map)
  then show ?thesis by (simp add: map_nth)
qed

lemma train_test_split_Inr:
  assumes "length X = length y"
    and "validate_shuffle_split (length X) test_size = Inr (n_train, n_test)"
  shows "train_test_split permutation X y test_size sd =
     Inr (safe_indexing X (take n_train (drop n_test (permutation sd (length X)))),
          safe_indexing X (take n_test (permutation sd (length X))),
          safe_indexing y (take n_train (drop n_test (permutation sd (length X)))),
          safe_indexing y (take n_test (permutation sd (length X))))"
  using assms by (simp add: train_test_split_def Let_def)

lemma train_test_split_Inl:
  assumes "validate_shuffle_split (length X) test_size = Inl ex"
  shows "\<exists>ex'. train_test_split permutation X y test_size sd = Inl ex'"
  using assms by (cases "length X = length y") (simp_all add: train_test_split_def)

lemma split_data_too_small:
  assumes "length images < 3"
  shows "\<exists>ex. split_data permutation images labels sd = Inl ex"
proof (cases "train_test_split permutation images labels (1 / 10) sd")
  case (Inl ex)
  then show ?thesis by (simp add: split_data_def)
next
  case (Inr quad)
  obtain Xtv Xte ytv yte where quad: "quad = (Xtv, Xte, ytv, yte)" by (cases quad) auto
  have eq: "length images = length labels"
    using Inr by (auto simp: train_test_split_def split: if_splits)
  have big: "\<not> length images \<le> 1"
    using Inr eq by (auto simp: train_test_split_def validate_shuffle_split_tenth split: if_splits)
  with assms have two: "length images = 2" by simp
  have "validate_shuffle_split (length images) (1 / 10) = Inr (1, 1)"
    by (simp add: validate_shuffle_split_tenth two)
  from train_test_split_Inr [OF eq this, of permutation sd] Inr quad
  have "length Xtv \<le> 1"
    by (simp add: length_safe_indexing)
  then have "validate_shuffle_split (length Xtv) (1 / 9) =
      Inl (ValueError ''the resulting train set will be empty'')"
    by (simp add: validate_shuffle_split_ninth)
  from train_test_split_Inl [OF this, of permutation ytv sd] show ?thesis
    by (auto simp: split_data_def Inr quad)
qed

text \<open>
  Claim C5, as amended. For parallel lists of images and labels of length N, with N at least
  3, the split returns three sequences drawn from the positions of the input by three index
  lists that are pairwise disjoint and together are all the positions, so that the sizes
  sum to N; the test size is N / 10 rounded up and the validation size a ninth of the rest
  rounded up, each less than 1 away from N / 10. The result is a function of the lists and
  the seed, the generator being seeded anew at each call, so two calls with the same seed
  give the same partition. With fewer than 3 examples the split fails
  (\<open>split_data_too_small\<close>).
\<close>

theorem split_data_partition:
  assumes perm: "is_permutation permutation"
    and len: "length images = N" "length labels = N"
    and big: "3 \<le> N"
  shows "\<exists>itr iva ite.
      split_data permutation images labels sd =
        Inr (safe_indexing images itr, safe_indexing images iva, safe_indexing images ite,
             safe_indexing labels itr, safe_indexing labels iva, safe_indexing labels ite)
    \<and> mset (itr @ iva @ ite) = mset [0..<N]
    \<and> distinct (itr @ iva @ ite)
    \<and> length itr + length iva + length ite = N
    \<and> length ite = (N + 9) div 10
    \<and> length iva = (N - (N + 9) div 10 + 8) div 9
    \<and> 0 < length itr
    \<and> \<bar>real (length ite) - real N / 10\<bar> < 1
    \<and> \<bar>real (length iva) - real N / 10\<bar> < 1"
proof -
  define t where "t = (N + 9) div 10"
  define R where "R = N - t"
  define v where "v = (R + 8) div 9"
  define p where "p = permutation sd N"
  define q where "q = permutation sd R"
  define itv where "itv = drop t p"
  define ite where "ite = take t p"
  define itr where "itr = map ((!) itv) (drop v q)"
  define iva where "iva = map ((!) itv) (take v q)"
  have tN: "t < N" "N \<le> 10 * t" "10 * t \<le> N + 9"
    using big unfolding t_def by arith+
  have R2: "2 \<le> R"
    using big unfolding R_def t_def by arith
  have vR: "v < R" "R \<le> 9 * v" "9 * v \<le> R + 8"
    using R2 unfolding v_def by arith+
  have lp: "length p = N"
    unfolding p_def using perm by (rule is_permutation_length)
  have lq: "length q = R"
    unfolding q_def using perm by (rule is_permutation_length)
  have mp: "mset p = mset [0..<N]"
    using perm unfolding p_def is_permutation_def by blast
  have mq: "mset q = mset [0..<R]"
    using perm unfolding q_def is_permutation_def by blast
  have litv: "length itv = R"
    by (simp add: itv_def lp R_def)
  have lite: "length ite = t"
    using tN(1) by (simp add: ite_def lp)
  have liva: "length iva = v"
    using vR(1) by (simp add: iva_def lq)
  have litr: "length itr = R - v"
    by (simp add: itr_def lq)
  have qset: "\<forall>j\<in>set q. j < length itv"
    using is_permutation_set [OF perm, of sd R] by (simp add: q_def litv)
  have first: "train_test_split permutation images labels (1 / 10) sd =
      Inr (safe_indexing images itv, safe_indexing images ite,
           safe_indexing labels itv, safe_indexing labels ite)"
  proof -
    have v1: "validate_shuffle_split (length images) (1 / 10) = Inr (R, t)"
      using big by (simp add: validate_shuffle_split_tenth len R_def t_def)
    have "take R (drop t p) = drop t p"
      by (simp add: lp R_def)
    with train_test_split_Inr [OF _ v1, of labels permutation sd] show ?thesis
      by (simp add: len p_def itv_def ite_def)
  qed
  have second: "train_test_split permutation (safe_indexing images itv) (safe_indexing labels itv)
        (1 / 9) sd =
      Inr (safe_indexing images itr, safe_indexing images iva,
           safe_indexing labels itr, safe_indexing labels iva)"
  proof -
    have l1: "length (safe_indexing images itv) = R"
      by (simp add: length_safe_indexing litv)
    have l2: "length (safe_indexing images itv) = length (safe_indexing labels itv)"
      by (simp add: length_safe_indexing)
    have v2: "validate_shuffle_split (length (safe_indexing images itv)) (1 / 9) = Inr (R - v, v)"
      using R2 by (simp add: validate_shuffle_split_ninth l1 v_def)
    have tk: "take (R - v) (drop v q) = drop v q"
      by (simp add: lq)
    have d: "\<forall>j\<in>set (drop v q). j < length itv"
      using qset by (meson in_set_dropD)
    have k: "\<forall>j\<in>set (take v q). j < length itv"
      using qset by (meson in_set_takeD)
    from train_test_split_Inr [OF l2 v2, of permutation sd] show ?thesis
      unfolding l1 tk q_def [symmetric]
      by (simp add: safe_indexing_twice [OF d] safe_indexing_twice [OF k] itr_def iva_def)
  qed
  have split: "split_data permutation images labels sd =
        Inr (safe_indexing images itr, safe_indexing images iva, safe_indexing images ite,
             safe_indexing labels itr, safe_indexing labels iva, safe_indexing labels ite)"
    by (simp add: split_data_def first second)
  have tq: "mset (take v q) + mset (drop v q) = mset q"
    by (metis append_take_drop_id mset_append)
  have "mset (itr @ iva) = image_mset ((!) itv) (mset (take v q) + mset (drop v q))"
    by (simp add: itr_def iva_def)
  also have "\<dots> = mset (map ((!) itv) q)"
    by (simp only: tq mset_map)
  also have "\<dots> = mset itv"
    using mq by (simp only: mset_map_nth_permutation litv)
  finally have "mset (itr @ iva @ ite) = mset (ite @ itv)"
    by simp
  then have ms: "mset (itr @ iva @ ite) = mset [0..<N]"
    by (simp add: ite_def itv_def mp)
  have dist: "distinct (itr @ iva @ ite)"
    using ms by (metis distinct_upt mset_eq_imp_distinct_iff)
  have total: "length itr + length iva + length ite = N"
    using tN(1) vR(1) by (simp add: litr liva lite R_def)
  have pos: "0 < length itr"
    using vR(1) by (simp add: litr)
  have b1: "\<bar>real (length ite) - real N / 10\<bar> < 1"
    using tN(2,3) unfolding lite by linarith
  have RN: "R + t = N"
    using tN(1) by (simp add: R_def)
  have b2: "\<bar>real (length iva) - real N / 10\<bar> < 1"
    using vR(2,3) tN(2,3) RN unfolding liva by linarith
  have e1: "length ite = (N + 9) div 10"
    by (simp add: lite t_def)
  have e2: "length iva = (N - (N + 9) div 10 + 8) div 9"
    by (simp add: liva v_def R_def t_def)
  show ?thesis
    using split ms dist total e1 e2 pos b1 b2 by blast
qed


text \<open>Ten images under the reversing permutation: eight for training, one each for the rest.\<close>

theorem split_data_partition_witness:
  "is_permutation reversing_permutation
   \<and> length ten_images = 10 \<and> length ten_labels = 10
   \<and> split_data reversing_permutation ten_images ten_labels seed =
       Inr ([''f1'', ''f2'', ''f3'', ''f4'', ''f5'', ''f6'', ''f7'', ''f8''], [''f0''], [''f9''],
            [[Num 1], [Num 0], [Num 1], [Num 0], [Num 1], [Num 0], [Num 1], [Num 0]],
            [[Num 0]], [[Num 1]])
   \<and> (\<exists>itr iva ite.
        split_data reversing_permutation ten_images ten_labels seed =
          Inr (safe_indexing ten_images itr, safe_indexing ten_images iva,
               safe_indexing ten_images ite, safe_indexing ten_labels itr,
               safe_indexing ten_labels iva, safe_indexing ten_labels ite)
        \<and> distinct (itr @ iva @ ite)
        \<and> length itr = 8 \<and> length iva = 1 \<and> length ite = 1)"
proof -
  have perm: "is_permutation reversing_permutation"
    by (simp add: is_permutation_def reversing_permutation_def)
  have l1: "length ten_images = 10"
    by (simp add: ten_images_def)
  have l2: "length ten_labels = 10"
    by (simp add: ten_labels_def)
  have big: "(3::nat) \<le> 10"
    by simp
  have run: "split_data reversing_permutation ten_images ten_labels seed =
       Inr ([''f1'', ''f2'', ''f3'', ''f4'', ''f5'', ''f6'', ''f7'', ''f8''], [''f0''], [''f9''],
            [[Num 1], [Num 0], [Num 1], [Num 0], [Num 1], [Num 0], [Num 1], [Num 0]],
            [[Num 0]], [[Num 1]])"
    by (simp add: split_data_def train_test_split_def validate_shuffle_split_tenth
        validate_shuffle_split_ninth ten_images_def ten_labels_def reversing_permutation_def
        safe_indexing_def upt_rec_numeral Let_def)
  from split_data_partition [OF perm l1 l2 big, of seed] obtain itr iva ite where
    s: "split_data reversing_permutation ten_images ten_labels seed =
          Inr (safe_indexing ten_images itr, safe_indexing ten_images iva,
               safe_indexing ten_images ite, safe_indexing ten_labels itr,
               safe_indexing ten_labels iva, safe_indexing ten_labels ite)"
    and d: "distinct (itr @ iva @ ite)"
    and n: "length itr + length iva + length ite = 10"
      "length ite = (10 + 9) div 10" "length iva = (10 - (10 + 9) div 10 + 8) div 9"
    by blast
  from n have "length itr = 8 \<and> length iva = 1 \<and> length ite = 1"
    by simp
  with s d have "\<exists>itr iva ite.
        split_data reversing_permutation ten_images ten_labels seed =
          Inr (safe_indexing ten_images itr, safe_indexing ten_images iva,
               safe_indexing ten_images ite, safe_indexing ten_labels itr,
               safe_indexing ten_labels iva, safe_indexing ten_labels ite)
        \<and> distinct (itr @ iva @ ite)
        \<and> length itr = 8 \<and> length iva = 1 \<and> length ite = 1"
    by blast
  with perm l1 l2 run show ?thesis
    by blast
qed

text \<open>
  Claim C5 as stated fails for a single example: the first split would leave the train set
  empty and raises.
\<close>

theorem split_data_small_counterexample:
  "length [''f0''] = length [[Num 1]]
   \<and> split_data reversing_permutation [''f0''] [[Num 1]] seed =
       Inl (ValueError ''the resulting train set will be empty'')"
  by (simp add: split_data_def train_test_split_def validate_shuffle_split_tenth)

section \<open>The truncated annotations of the EfficientNet-B0 notebook\<close>

lemma load_images_length:
  "load_images image_open names acc = Inr images \<Longrightarrow> length images = length acc + length names"
  by (induction image_open names acc rule: load_images.induct) (auto split: sum.splits)

lemma length_clean_annotations: "length (clean_annotations parse df) \<le> length df"
  by (simp add: clean_annotations_def dropna_def)

lemma train_test_split_lengths:
  assumes "train_test_split permutation X y test_size sd = Inr (a, b, c, d)"
  shows "length a + length b \<le> length X \<and> length c = length a \<and> length d = length b"
proof -
  from assms obtain n_train n_test where
    v: "validate_shuffle_split (length X) test_size = Inr (n_train, n_test)"
    and a: "a = safe_indexing X (take n_train (drop n_test (permutation sd (length X))))"
    and b: "b = safe_indexing X (take n_test (permutation sd (length X)))"
    and c: "c = safe_indexing y (take n_train (drop n_test (permutation sd (length X))))"
    and d: "d = safe_indexing y (take n_test (permutation sd (length X)))"
    by (auto simp: train_test_split_def Let_def split: if_splits sum.splits)
  from v have "n_train + n_test \<le> length X"
    by (auto simp: validate_shuffle_split_def Let_def split: if_splits)
  moreover have "length a \<le> n_train" "length b \<le> n_test"
    by (simp_all add: a b length_safe_indexing)
  ultimately show ?thesis
    by (simp add: a b c d length_safe_indexing)
qed

lemma split_data_lengths:
  assumes "split_data permutation images labels sd = Inr (a, b, c, d, e, f)"
  shows "length a + length b + length c \<le> length images
     \<and> length d = length a \<and> length e = length b \<and> length f = length c"
proof -
  from assms obtain Xtv ytv where
    one: "train_test_split permutation images labels (1 / 10) sd = Inr (Xtv, c, ytv, f)"
    and two: "train_test_split permutation Xtv ytv (1 / 9) sd = Inr (a, b, d, e)"
    by (auto simp: split_data_def split: sum.splits)
  from train_test_split_lengths [OF one] train_test_split_lengths [OF two] show ?thesis
    by simp
qed

text \<open>
  Claim C10. The EfficientNet-B0 notebook keeps the first 5 rows of the annotations before
  anything else, so at most 5 rows survive the cleaning, and whenever its loading cell
  returns, the train, validation and test splits together hold at most 5 examples, whatever
  the size of the file.
\<close>

theorem eb0_dataset_at_most_five:
  "length (clean_annotations parse (take 5 csv)) \<le> 5
   \<and> (load_dataset EfficientNetB0 parse image_open permutation csv =
          Inr (X_train, X_val, X_test, y_train, y_val, y_test) \<longrightarrow>
        length X_train + length X_val + length X_test \<le> 5
        \<and> length y_train + length y_val + length y_test \<le> 5)"
proof -
  have five: "length (clean_annotations parse (take 5 csv)) \<le> 5"
    using length_clean_annotations [of parse "take 5 csv"] by simp
  have "length X_train + length X_val + length X_test \<le> 5
        \<and> length y_train + length y_val + length y_test \<le> 5"
    if run: "load_dataset EfficientNetB0 parse image_open permutation csv =
          Inr (X_train, X_val, X_test, y_train, y_val, y_test)"
  proof -
    from run obtain images where
      im: "load_images image_open (map filename (clean_annotations parse (take 5 csv))) [] = Inr images"
      and sp: "split_data permutation images
          (extract_labels (clean_annotations parse (take 5 csv))) seed =
          Inr (X_train, X_val, X_test, y_train, y_val, y_test)"
      by (auto simp: load_dataset_def Let_def split: sum.splits)
    from load_images_length [OF im] five have "length images \<le> 5"
      by simp
    with split_data_lengths [OF sp] show ?thesis
      by simp
  qed
  with five show ?thesis
    by blast
qed

lemma clean_csv_seven: "clean_annotations parse_flag (take k csv_seven) = take k csv_seven"
proof -
  have "\<forall>r\<in>set csv_seven. coerce_labels parse_flag r = r \<and> \<not> has_na r"
    by (simp add: csv_seven_def coerce_labels_def has_na_def to_numeric_def)
  then have "\<forall>r\<in>set (take k csv_seven). coerce_labels parse_flag r = r \<and> \<not> has_na r"
    by (meson in_set_takeD)
  then show ?thesis
    by (simp add: clean_annotations_def dropna_def map_idI)
qed

text \<open>A file of seven well-formed rows: five examples are split, two rows are never read.\<close>

theorem eb0_dataset_at_most_five_witness:
  "length csv_seven = 7
   \<and> load_dataset EfficientNetB0 parse_flag open_by_name reversing_permutation csv_seven =
       Inr ([''f1'', ''f2'', ''f3''], [''f0''], [''f4''],
            replicate 3 (replicate 15 (Num 1)), [replicate 15 (Num 1)], [replicate 15 (Num 1)])
   \<and> length [''f1'', ''f2'', ''f3''] + length [''f0''] + length [''f4''] \<le> (5::nat)"
proof -
  have run: "load_dataset EfficientNetB0 parse_flag open_by_name reversing_permutation csv_seven =
       Inr ([''f1'', ''f2'', ''f3''], [''f0''], [''f4''],
            replicate 3 (replicate 15 (Num 1)), [replicate 15 (Num 1)], [replicate 15 (Num 1)])"
    unfolding load_dataset_def head_rows.simps option.case Let_def clean_csv_seven
    by (simp add: csv_seven_def extract_labels_def open_by_name_def seed_def
        split_data_def train_test_split_def validate_shuffle_split_tenth
        validate_shuffle_split_ninth reversing_permutation_def
        safe_indexing_def upt_rec_numeral Let_def numeral_3_eq_3)
  have "length csv_seven = 7"
    by (simp add: csv_seven_def)
  with run eb0_dataset_at_most_five [of parse_flag csv_seven open_by_name reversing_permutation
      "[''f1'', ''f2'', ''f3'']" "[''f0'']" "[''f4'']"
      "replicate 3 (replicate 15 (Num 1))" "[replicate 15 (Num 1)]" "[replicate 15 (Num 1)]"]
  show ?thesis
    by blast
qed

text \<open>The DenseNet201 notebook splits all seven.\<close>

lemma d201_dataset_not_truncated:
  "load_dataset DenseNet201 parse_flag open_by_name reversing_permutation csv_seven =
       Inr ([''f1'', ''f2'', ''f3'', ''f4'', ''f5''], [''f0''], [''f6''],
            [replicate 15 (Num 1), replicate 15 (Num 1), replicate 15 (Num 1),
             replicate 15 (Num 1), replicate 15 (Num 1)],
            [replicate 15 (Num 1)], [replicate 15 (Num 1)])"
proof -
  have all: "clean_annotations parse_flag csv_seven = csv_seven"
    using clean_csv_seven [of "length csv_seven"] by simp
  show ?thesis
    unfolding load_dataset_def head_rows.simps option.case Let_def all
    by (simp add: csv_seven_def extract_labels_def open_by_name_def seed_def
        split_data_def train_test_split_def validate_shuffle_split_tenth
        validate_shuffle_split_ninth reversing_permutation_def
        safe_indexing_def upt_rec_numeral Let_def)
qed

section \<open>Properties of the persisted configuration\<close>









end
